theory Spec2Isabelle
  imports Complex_Main
begin

section \<open>Backend (app.py): colours, hue and harmony\<close>

text \<open>
  The Flask backend works on colours written as hex strings (\<open>'#rrggbb'\<close>). A string is a
  list of code points below 256. An exception raised by the Python code is a value \<open>Inl e\<close>
  of the result; a normal return is \<open>Inr v\<close>.
\<close>

datatype py_error = ValueError | ZeroDivisionError | CvError | ClusterError

subsection \<open>\<open>int(s, 16)\<close>\<close>

text \<open>
  \<open>int(s, 16)\<close> skips white space on both sides, takes an optional sign and an optional
  prefix \<open>0x\<close>, and reads hex digits that single underscores may separate. \<open>None\<close> is
  the \<open>ValueError\<close>.
\<close>

definition py_isspace :: "char \<Rightarrow> bool" where
  "py_isspace c =
     (let n = (of_char c :: nat)
      in (9 \<le> n \<and> n \<le> 13) \<or> n = 32 \<or> n = 133 \<or> n = 160)"

definition hex_digit_value :: "char \<Rightarrow> nat option" where
  "hex_digit_value c =
     (let n = (of_char c :: nat) in
      if 48 \<le> n \<and> n \<le> 57 then Some (n - 48)
      else if 97 \<le> n \<and> n \<le> 102 then Some (n - 87)
      else if 65 \<le> n \<and> n \<le> 70 then Some (n - 55)
      else None)"

text \<open>
  The scan over digits and underscores, after a first digit: \<open>prev\<close> is the character
  before, \<open>acc\<close> the value so far. It stops at the first other character and gives the
  value and what is left; two underscores in a row or an underscore at the end are errors.
\<close>

fun hex_scan :: "char \<Rightarrow> nat \<Rightarrow> string \<Rightarrow> (nat \<times> string) option" where
  "hex_scan prev acc [] = (if prev = CHR ''_'' then None else Some (acc, []))"
| "hex_scan prev acc (c # cs) =
     (if c = CHR ''_'' then (if prev = CHR ''_'' then None else hex_scan c acc cs)
      else
        (case hex_digit_value c of
           None \<Rightarrow> (if prev = CHR ''_'' then None else Some (acc, c # cs))
         | Some d \<Rightarrow> hex_scan c (16 * acc + d) cs))"

definition py_int16 :: "string \<Rightarrow> int option" where
  "py_int16 s =
     (let s1 = dropWhile py_isspace s;
          negative = (take 1 s1 = ''-'');
          s2 = (if take 1 s1 = ''+'' \<or> take 1 s1 = ''-'' then drop 1 s1 else s1);
          s3 = (if take 2 s2 = ''0x'' \<or> take 2 s2 = ''0X''
                then (let r = drop 2 s2 in if take 1 r = ''_'' then drop 1 r else r)
                else s2)
      in case s3 of
           [] \<Rightarrow> None
         | c # cs \<Rightarrow>
             (case hex_digit_value c of
                None \<Rightarrow> None
              | Some d \<Rightarrow>
                  (case hex_scan c d cs of
                     None \<Rightarrow> None
                   | Some (v, rest) \<Rightarrow>
                       if dropWhile py_isspace rest = []
                       then Some (if negative then - int v else int v)
                       else None)))"

text \<open>The slice \<open>s[i:j]\<close> for \<open>0 \<le> i \<le> j\<close>; it is shorter when the string ends early.\<close>

definition py_slice :: "'a list \<Rightarrow> nat \<Rightarrow> nat \<Rightarrow> 'a list" where
  "py_slice s i j = take (j - i) (drop i s)"

text \<open>\<open>rgb = tuple(int(hex_color[i:i+2], 16) for i in (1, 3, 5))\<close>\<close>

definition hex_to_rgb :: "string \<Rightarrow> py_error + (int \<times> int \<times> int)" where
  "hex_to_rgb hex_color =
     (case py_int16 (py_slice hex_color 1 3) of
        None \<Rightarrow> Inl ValueError
      | Some r \<Rightarrow>
          (case py_int16 (py_slice hex_color 3 5) of
             None \<Rightarrow> Inl ValueError
           | Some g \<Rightarrow>
               (case py_int16 (py_slice hex_color 5 7) of
                  None \<Rightarrow> Inl ValueError
                | Some b \<Rightarrow> Inr (r, g, b))))"

subsection \<open>Double-precision arithmetic\<close>

text \<open>
  A Python float is an IEEE double; here it is the real number it stands for. Every
  arithmetic operation on floats returns the exact result rounded to the nearest double,
  ties to the even significand: that rounding is \<open>fl\<close>. A double with \<open>2^e \<le> |x| < 2^(e+1)\<close>
  is a multiple of \<open>2^(e-52)\<close>. Overflow and subnormal numbers are not modelled: the
  magnitudes met here lie far inside the range of the exponent, for which 1100 stands.
\<close>

definition pow2 :: "int \<Rightarrow> real" where
  "pow2 e = (if 0 \<le> e then 2 ^ nat e else 1 / 2 ^ nat (- e))"

definition round_half_even :: "real \<Rightarrow> int" where
  "round_half_even y =
     (let f = \<lfloor>y\<rfloor>; r = y - of_int f
      in if r < 1 / 2 then f
         else if 1 / 2 < r then f + 1
         else if even f then f else f + 1)"

text \<open>The exponent \<open>e\<close> with \<open>2^e \<le> x < 2^(e+1)\<close> of a positive number.\<close>

fun binade :: "nat \<Rightarrow> real \<Rightarrow> int" where
  "binade n x =
     (if n = 0 then 0
      else if x < 1 then binade (n - 1) (2 * x) - 1
      else if 2 \<le> x then binade (n - 1) (x / 2) + 1
      else 0)"

declare binade.simps [simp del]

definition fl_pos :: "real \<Rightarrow> real" where
  "fl_pos x =
     (let e = binade 1100 x
      in of_int (round_half_even (x * pow2 (52 - e))) * pow2 (e - 52))"

definition fl :: "real \<Rightarrow> real" where
  "fl x = (if x = 0 then 0 else if x < 0 then - fl_pos (- x) else fl_pos x)"

text \<open>Python's \<open>int(x)\<close> on a float: truncation towards zero.\<close>

definition py_int :: "real \<Rightarrow> int" where
  "py_int x = (if 0 \<le> x then \<lfloor>x\<rfloor> else \<lceil>x\<rceil>)"

text \<open>
  Python's \<open>x % 1.0\<close>: the C function \<open>fmod\<close> gives the exact remainder with the sign of
  \<open>x\<close>, and a negative remainder has 1.0 added to it.
\<close>

definition py_mod1 :: "real \<Rightarrow> real" where
  "py_mod1 x =
     (let m = x - of_int (py_int x)
      in if m \<noteq> 0 \<and> m < 0 then fl (m + 1) else m)"

subsection \<open>Hue and harmony\<close>

text \<open>
  \<open>colorsys.rgb_to_hsv\<close> of the standard library. The division \<open>rangec / maxc\<close> raises
  when \<open>maxc\<close> is zero, which a channel with a minus sign can bring about.
\<close>

definition rgb_to_hsv :: "real \<Rightarrow> real \<Rightarrow> real \<Rightarrow> py_error + (real \<times> real \<times> real)" where
  "rgb_to_hsv r g b =
     (let maxc = max (max r g) b;
          minc = min (min r g) b;
          rangec = fl (maxc - minc);
          v = maxc
      in if minc = maxc then Inr (0, 0, v)
         else if maxc = 0 then Inl ZeroDivisionError
         else
           (let s = fl (rangec / maxc);
                rc = fl (fl (maxc - r) / rangec);
                gc = fl (fl (maxc - g) / rangec);
                bc = fl (fl (maxc - b) / rangec);
                h = (if r = maxc then fl (bc - gc)
                     else if g = maxc then fl (fl (2 + rc) - bc)
                     else fl (fl (4 + gc) - rc))
            in Inr (py_mod1 (fl (h / 6)), s, v)))"

text \<open>
  The hue in degrees of one colour:
  \<open>colorsys.rgb_to_hsv(rgb[0]/255, rgb[1]/255, rgb[2]/255)[0] * 360\<close>.
\<close>

definition hue_of_rgb :: "int \<times> int \<times> int \<Rightarrow> py_error + real" where
  "hue_of_rgb rgb =
     (case rgb of (r, g, b) \<Rightarrow>
        (case rgb_to_hsv (fl (of_int r / 255)) (fl (of_int g / 255)) (fl (of_int b / 255)) of
           Inl e \<Rightarrow> Inl e
         | Inr hsv \<Rightarrow> Inr (fl (fst hsv * 360))))"

text \<open>
  The first loop of \<open>analyze_color_harmony\<close> converts every colour before any comparison,
  so the first colour that cannot be converted raises.
\<close>

fun hues_of :: "string list \<Rightarrow> py_error + real list" where
  "hues_of [] = Inr []"
| "hues_of (c # cs) =
     (case hex_to_rgb c of
        Inl e \<Rightarrow> Inl e
      | Inr rgb \<Rightarrow>
          (case hue_of_rgb rgb of
             Inl e \<Rightarrow> Inl e
           | Inr h \<Rightarrow>
               (case hues_of cs of
                  Inl e \<Rightarrow> Inl e
                | Inr hs \<Rightarrow> Inr (h # hs))))"

text \<open>\<open>hue_diff = abs(hues[i] - hues[j])\<close>\<close>

definition hue_diff :: "real \<Rightarrow> real \<Rightarrow> real" where
  "hue_diff a b = \<bar>fl (a - b)\<bar>"

text \<open>The nested loop over \<open>i < j\<close>: is there a pair with \<open>160 <= hue_diff <= 200\<close>?\<close>

fun complementary_pair :: "real list \<Rightarrow> bool" where
  "complementary_pair [] = False"
| "complementary_pair (h # hs) =
     (list_ex (\<lambda>x. 160 \<le> hue_diff h x \<and> hue_diff h x \<le> 200) hs \<or> complementary_pair hs)"

text \<open>\<open>max(hues)\<close> and \<open>min(hues)\<close>; both raise on an empty list.\<close>

fun py_max :: "real list \<Rightarrow> py_error + real" where
  "py_max [] = Inl ValueError"
| "py_max (h # hs) = Inr (fold max hs h)"

fun py_min :: "real list \<Rightarrow> py_error + real" where
  "py_min [] = Inl ValueError"
| "py_min (h # hs) = Inr (fold min hs h)"

definition harmony_of_hues :: "real list \<Rightarrow> py_error + string" where
  "harmony_of_hues hues =
     (if complementary_pair hues then Inr ''complementary''
      else
        (case py_max hues of
           Inl e \<Rightarrow> Inl e
         | Inr mx \<Rightarrow>
             (case py_min hues of
                Inl e \<Rightarrow> Inl e
              | Inr mn \<Rightarrow>
                  (let hue_range = fl (mx - mn)
                   in if hue_range \<le> 60 then Inr ''analogous''
                      else if hue_range \<le> 120 then Inr ''triadic''
                      else Inr ''diverse''))))"

definition analyze_color_harmony :: "string list \<Rightarrow> py_error + string" where
  "analyze_color_harmony colors =
     (if length colors < 2 then Inr ''monochrome''
      else
        (case hues_of colors of
           Inl e \<Rightarrow> Inl e
         | Inr hues \<Rightarrow> harmony_of_hues hues))"



section \<open>Backend: the outfit score\<close>

text \<open>An image record of the JSON request; a missing \<open>colors\<close> key reads as \<open>[]\<close>.\<close>

record image_data =
  img_id :: string
  colors :: "string list"

text \<open>\<open>harmony_scores.get(harmony, 70)\<close>\<close>

definition harmony_scores :: "string \<Rightarrow> int" where
  "harmony_scores harmony =
     (if harmony = ''complementary'' then 95
      else if harmony = ''analogous'' then 90
      else if harmony = ''triadic'' then 85
      else if harmony = ''monochrome'' then 80
      else if harmony = ''diverse'' then 75
      else 70)"

text \<open>\<open>occasion_multipliers.get(occasion, 0.9)\<close>, the table being built for \<open>harmony\<close>.\<close>

definition occasion_multipliers :: "string \<Rightarrow> string \<Rightarrow> real" where
  "occasion_multipliers harmony occasion =
     (if occasion = ''formal'' then
        (if harmony \<in> set [''complementary'', ''monochrome''] then 9 / 10 else 8 / 10)
      else if occasion = ''casual'' then 95 / 100
      else if occasion = ''party'' then
        (if harmony \<in> set [''complementary'', ''diverse''] then 95 / 100 else 85 / 100)
      else if occasion = ''business'' then
        (if harmony \<in> set [''monochrome'', ''analogous''] then 9 / 10 else 8 / 10)
      else if occasion = ''sports'' then 9 / 10
      else if occasion = ''wedding'' then
        (if harmony = ''complementary'' then 95 / 100 else 85 / 100)
      else 9 / 10)"

text \<open>
  The tail of \<open>calculate_outfit_score\<close>, from the harmony label on:
  \<open>min(95, max(65, int(color_score * multiplier)))\<close>. The multiplier and the product are
  taken exactly; rounding both to doubles leaves the integer part of every product of the
  two tables as it is (lemma \<open>score_product_rounding\<close>).
\<close>

definition harmony_occasion_score :: "string \<Rightarrow> string \<Rightarrow> int" where
  "harmony_occasion_score harmony occasion =
     (let color_score = harmony_scores harmony;
          final_score = of_int color_score * occasion_multipliers harmony occasion
      in min 95 (max 65 (py_int final_score)))"

definition calculate_outfit_score ::
  "image_data list \<Rightarrow> string \<Rightarrow> string \<Rightarrow> py_error + int" where
  "calculate_outfit_score images_data occasion color_preference =
     (let base_score = 70;
          all_colors = concat (map colors images_data)
      in if all_colors = [] then Inr base_score
         else
           (case analyze_color_harmony all_colors of
              Inl e \<Rightarrow> Inl e
            | Inr harmony \<Rightarrow> Inr (harmony_occasion_score harmony occasion)))"

section \<open>Backend: generating combinations\<close>

text \<open>
  One entry of the \<open>combinations\<close> list of the response. The three text fields
  (\<open>style_notes\<close>, \<open>color_analysis\<close>, \<open>recommendation\<close>) are built from the other
  fields after these are computed and are left out.
\<close>

record combination =
  c_id :: nat
  c_images :: "image_data list"
  c_score :: int
  c_rating :: int
  c_harmony :: string

text \<open>
  The JSON body of \<open>POST /api/generate-combinations\<close>; a field that is \<open>None\<close> is a key
  the body does not have. A request without a JSON body is \<open>None\<close>, and the empty object
  is the record with no key.
\<close>

record generate_request =
  req_images :: "image_data list option"
  req_occasion :: "string option"
  req_clothingType :: "string option"
  req_colorPreference :: "string option"

datatype generate_body =
  GenerateError string
| GenerateSuccess "combination list" nat

text \<open>
  \<open>min(5, max(1, int(score / 20) + 1))\<close>. The quotient is taken exactly; for the scores
  from 65 to 95 rounding it to a double leaves its integer part as it is (lemma
  \<open>rating_quotient_rounding\<close>).
\<close>

definition rating_of_score :: "int \<Rightarrow> int" where
  "rating_of_score sc = min 5 (max 1 (py_int (of_int sc / 20) + 1))"

text \<open>
  The images of combination \<open>i\<close>: a window of \<open>combo_size\<close> images from position \<open>i\<close>,
  padded from the front of the list when the window runs past its end.
\<close>

definition select_images :: "image_data list \<Rightarrow> nat \<Rightarrow> image_data list" where
  "select_images images_data i =
     (let combo_size = min 4 (max 2 (length images_data - i));
          selected_images = py_slice images_data i (i + combo_size)
      in if length selected_images < combo_size
         then selected_images @ py_slice images_data 0 (combo_size - length selected_images)
         else selected_images)"

text \<open>The body of the loop over \<open>i\<close>; an exception leaves the loop.\<close>

definition make_combination ::
  "image_data list \<Rightarrow> string \<Rightarrow> string \<Rightarrow> nat \<Rightarrow> py_error + combination" where
  "make_combination images_data occasion color_preference i =
     (let selected_images = select_images images_data i
      in case calculate_outfit_score selected_images occasion color_preference of
           Inl e \<Rightarrow> Inl e
         | Inr sc \<Rightarrow>
             (let all_colors = concat (map (\<lambda>img. take 2 (colors img)) selected_images)
              in case analyze_color_harmony all_colors of
                   Inl e \<Rightarrow> Inl e
                 | Inr harmony \<Rightarrow>
                     Inr \<lparr>c_id = i + 1, c_images = selected_images, c_score = sc,
                          c_rating = rating_of_score sc, c_harmony = harmony\<rparr>))"

fun collect_results :: "('e + 'a) list \<Rightarrow> 'e + 'a list" where
  "collect_results [] = Inr []"
| "collect_results (r # rs) =
     (case r of
        Inl e \<Rightarrow> Inl e
      | Inr x \<Rightarrow>
          (case collect_results rs of
             Inl e \<Rightarrow> Inl e
           | Inr xs \<Rightarrow> Inr (x # xs)))"

text \<open>
  \<open>combinations.sort(key=lambda x: x['score'], reverse=True)\<close>: a stable sort, highest
  score first.
\<close>

definition sort_by_score :: "combination list \<Rightarrow> combination list" where
  "sort_by_score cs = sort_key (\<lambda>c. - c_score c) cs"

text \<open>
  The handler returns a status code and a body. The message of the 500 response is given
  without the text of the exception.
\<close>

text \<open>\<open>data.get('images', [])\<close>, \<open>data.get('occasion', 'casual')\<close>, \<open>data.get('colorPreference', '')\<close>\<close>

definition request_images :: "generate_request \<Rightarrow> image_data list" where
  "request_images data = (case req_images data of None \<Rightarrow> [] | Some l \<Rightarrow> l)"

definition request_occasion :: "generate_request \<Rightarrow> string" where
  "request_occasion data = (case req_occasion data of None \<Rightarrow> ''casual'' | Some v \<Rightarrow> v)"

definition request_colorPreference :: "generate_request \<Rightarrow> string" where
  "request_colorPreference data = (case req_colorPreference data of None \<Rightarrow> [] | Some v \<Rightarrow> v)"

definition generate_combinations :: "generate_request option \<Rightarrow> nat \<times> generate_body" where
  "generate_combinations body =
     (case body of
        None \<Rightarrow> (400, GenerateError ''No data provided'')
      | Some data \<Rightarrow>
          if req_images data = None \<and> req_occasion data = None \<and>
             req_clothingType data = None \<and> req_colorPreference data = None
          then (400, GenerateError ''No data provided'')
          else
            (let images_data = request_images data;
                 occasion = request_occasion data;
                 color_preference = request_colorPreference data
             in if length images_data < 2
                then (400, GenerateError ''At least 2 images required for combinations'')
                else
                  (let num_combinations = min 4 (length images_data)
                   in case collect_results
                             (map (make_combination images_data occasion color_preference)
                                  [0..<num_combinations]) of
                        Inl e \<Rightarrow> (500, GenerateError ''Generation failed'')
                      | Inr combinations \<Rightarrow>
                          (200, GenerateSuccess (sort_by_score combinations)
                                  (length combinations)))))"

section \<open>Backend: the colour extractor\<close>

text \<open>
  \<open>cv2.imread\<close> and \<open>KMeans(...).fit\<close> are library calls; the extractor is modelled over
  them. \<open>imread\<close> gives \<open>None\<close> for a file it cannot read and otherwise the rows of BGR
  pixels. The clustering gives its centroids in the library's order and the cluster index
  of every pixel, or raises.
\<close>

type_synonym pixel = "nat \<times> nat \<times> nat"

type_synonym cv_image = "pixel list list"

record kmeans_fit =
  cluster_centers :: "(real \<times> real \<times> real) list"
  labels :: "nat list"

text \<open>\<open>cv2.cvtColor(image, cv2.COLOR_BGR2RGB)\<close>; OpenCV rejects an image without pixels.\<close>

definition cvtColor_BGR2RGB :: "cv_image \<Rightarrow> py_error + cv_image" where
  "cvtColor_BGR2RGB img =
     (if concat img = [] then Inl CvError
      else Inr (map (map (\<lambda>(b, g, r). (r, g, b))) img))"

text \<open>\<open>image.reshape(-1, 3)\<close>\<close>

definition reshape_pixels :: "cv_image \<Rightarrow> pixel list" where
  "reshape_pixels img = concat img"

definition hex_char :: "nat \<Rightarrow> char" where
  "hex_char d = ''0123456789abcdef'' ! d"

fun hex_digits :: "nat \<Rightarrow> string" where
  "hex_digits n =
     (if n < 16 then [hex_char n] else hex_digits (n div 16) @ [hex_char (n mod 16)])"

text \<open>\<open>'{:02x}'.format(n)\<close>: lower-case hex, zero-padded to two characters, sign included.\<close>

definition format_02x :: "int \<Rightarrow> string" where
  "format_02x n =
     (if n < 0 then CHR ''-'' # hex_digits (nat (- n))
      else
        (let ds = hex_digits (nat n)
         in if length ds < 2 then CHR ''0'' # ds else ds))"

text \<open>One centroid after \<open>astype(int)\<close>, as \<open>'#{:02x}{:02x}{:02x}'\<close>.\<close>

definition centroid_hex :: "real \<times> real \<times> real \<Rightarrow> string" where
  "centroid_hex color =
     (case color of (c0, c1, c2) \<Rightarrow>
        CHR ''#'' # format_02x (py_int c0) @ format_02x (py_int c1) @ format_02x (py_int c2))"

definition extract_dominant_colors ::
  "(string \<Rightarrow> cv_image option) \<Rightarrow> (nat \<Rightarrow> pixel list \<Rightarrow> py_error + kmeans_fit) \<Rightarrow>
   string \<Rightarrow> nat \<Rightarrow> string list" where
  "extract_dominant_colors imread KMeans_fit image_path num_colors =
     (case imread image_path of
        None \<Rightarrow> []
      | Some img \<Rightarrow>
          (case cvtColor_BGR2RGB img of
             Inl e \<Rightarrow> [''#000000'', ''#FFFFFF'']
           | Inr rgb_image \<Rightarrow>
               (case KMeans_fit num_colors (reshape_pixels rgb_image) of
                  Inl e \<Rightarrow> [''#000000'', ''#FFFFFF'']
                | Inr kmeans \<Rightarrow> map centroid_hex (cluster_centers kmeans))))"

text \<open>The number of pixels the clustering assigned to cluster \<open>i\<close>.\<close>

definition cluster_size :: "kmeans_fit \<Rightarrow> nat \<Rightarrow> nat" where
  "cluster_size kmeans i = length (filter (\<lambda>l. l = i) (labels kmeans))"

text \<open>
  The order the specification asks of the returned list: the clusters, in the order of
  the returned colours, have non-increasing sizes.
\<close>

definition ordered_by_cluster_size :: "kmeans_fit \<Rightarrow> bool" where
  "ordered_by_cluster_size kmeans =
     sorted_wrt (\<lambda>a b. b \<le> a)
       (map (cluster_size kmeans) [0..<length (cluster_centers kmeans)])"

section \<open>Backend: the upload endpoint\<close>

text \<open>\<open>ALLOWED_EXTENSIONS\<close>\<close>

definition ALLOWED_EXTENSIONS :: "string list" where
  "ALLOWED_EXTENSIONS = [''png'', ''jpg'', ''jpeg'', ''gif'', ''bmp'', ''webp'']"

text \<open>\<open>str.lower\<close> on the ASCII letters; no other character lowers to an ASCII letter.\<close>

definition lower_char :: "char \<Rightarrow> char" where
  "lower_char c =
     (let n = (of_char c :: nat)
      in if 65 \<le> n \<and> n \<le> 90 then char_of (n + 32) else c)"

text \<open>\<open>filename.rsplit('.', 1)[1]\<close> for a name with a dot: what follows the last dot.\<close>

definition after_last_dot :: "string \<Rightarrow> string" where
  "after_last_dot filename = rev (takeWhile (\<lambda>c. c \<noteq> CHR ''.'') (rev filename))"

definition allowed_file :: "string \<Rightarrow> bool" where
  "allowed_file filename =
     (CHR ''.'' \<in> set filename \<and>
      map lower_char (after_last_dot filename) \<in> set ALLOWED_EXTENSIONS)"

text \<open>
  One part of the multipart field \<open>images\<close>. The work done for an accepted file (saving
  it, extracting colours, detecting the type, naming the colours) is the parameter
  \<open>process_file\<close> of the handler; it may raise.
\<close>

record upload_file =
  filename :: string

datatype upload_body =
  UploadError string
| UploadSuccess "image_data list"

text \<open>
  \<open>files_field\<close> is \<open>None\<close> when the request has no field \<open>images\<close>. A file object is
  true when its name is not empty.
\<close>

definition upload_images ::
  "(upload_file \<Rightarrow> py_error + image_data) \<Rightarrow> upload_file list option \<Rightarrow> nat \<times> upload_body" where
  "upload_images process_file files_field =
     (case files_field of
        None \<Rightarrow> (400, UploadError ''No images provided'')
      | Some files \<Rightarrow>
          if files = [] \<or> list_all (\<lambda>file. filename file = []) files
          then (400, UploadError ''No images selected'')
          else
            (case collect_results
                    (map process_file
                       (filter (\<lambda>file. filename file \<noteq> [] \<and> allowed_file (filename file))
                          files)) of
               Inl e \<Rightarrow> (500, UploadError ''Upload failed'')
             | Inr processed_images \<Rightarrow> (200, UploadSuccess processed_images)))"

section \<open>Front end (script.js): the list of uploaded files\<close>

text \<open>
  A browser \<open>File\<close>, and the entry \<open>fileData\<close> that \<open>reader.onload\<close> pushes. The id is
  \<open>Date.now() + Math.random()\<close>, a number the environment supplies when the reader has
  loaded; so is the data URL.
\<close>

record js_file =
  file_name :: string
  file_type :: string

record file_data =
  fd_file :: js_file
  fd_url :: string
  fd_name :: string
  fd_id :: real

text \<open>
  \<open>FileReader.readAsDataURL\<close> is asynchronous: \<open>processFiles\<close> only starts the readers,
  and each \<open>onload\<close> callback runs later, after the call that started it has returned.
  The state is the global \<open>uploadedFiles\<close> and the readers that have not loaded yet.
\<close>

record script_state =
  uploadedFiles :: "file_data list"
  loading :: "js_file list"

definition is_image_file :: "js_file \<Rightarrow> bool" where
  "is_image_file file = (take 6 (file_type file) = ''image/'')"

definition processFiles :: "js_file list \<Rightarrow> script_state \<Rightarrow> script_state" where
  "processFiles files st = st\<lparr>loading := loading st @ filter is_image_file files\<rparr>"

text \<open>The \<open>onload\<close> callback of the reader at position \<open>k\<close> among those still loading.\<close>

definition reader_onload :: "nat \<Rightarrow> string \<Rightarrow> real \<Rightarrow> script_state \<Rightarrow> script_state" where
  "reader_onload k url new_id st =
     (if k < length (loading st)
      then
        (let file = loading st ! k;
             fileData = \<lparr>fd_file = file, fd_url = url, fd_name = file_name file,
                         fd_id = new_id\<rparr>
         in st\<lparr>uploadedFiles := uploadedFiles st @ [fileData],
                loading := take k (loading st) @ drop (Suc k) (loading st)\<rparr>)
      else st)"

text \<open>\<open>uploadedFiles = uploadedFiles.filter(file => file.id !== id)\<close>\<close>

definition removeImage :: "real \<Rightarrow> script_state \<Rightarrow> script_state" where
  "removeImage rid st =
     st\<lparr>uploadedFiles := filter (\<lambda>file. fd_id file \<noteq> rid) (uploadedFiles st)\<rparr>"

section \<open>Front end (class AIStyleMatcher): the list of uploaded images\<close>

record image_entry =
  ie_id :: real
  ie_name :: string
  ie_src :: string
  ie_file :: js_file

record matcher_state =
  uploadedImages :: "image_entry list"
  readers :: "js_file list"

text \<open>
  \<open>processFiles\<close> of the class: for each image file, the test
  \<open>this.uploadedImages.length < 12\<close> is made when the reader is started; the push is
  made by \<open>onload\<close>, later.
\<close>

fun start_readers :: "js_file list \<Rightarrow> matcher_state \<Rightarrow> matcher_state" where
  "start_readers [] st = st"
| "start_readers (file # files) st =
     start_readers files
       (if length (uploadedImages st) < 12 then st\<lparr>readers := readers st @ [file]\<rparr> else st)"

definition AIStyleMatcher_processFiles :: "js_file list \<Rightarrow> matcher_state \<Rightarrow> matcher_state" where
  "AIStyleMatcher_processFiles files st =
     (let imageFiles = filter is_image_file files in start_readers imageFiles st)"

definition AIStyleMatcher_onload ::
  "nat \<Rightarrow> string \<Rightarrow> real \<Rightarrow> matcher_state \<Rightarrow> matcher_state" where
  "AIStyleMatcher_onload k src new_id st =
     (if k < length (readers st)
      then
        (let file = readers st ! k;
             imageData = \<lparr>ie_id = new_id, ie_name = file_name file, ie_src = src,
                          ie_file = file\<rparr>
         in st\<lparr>uploadedImages := uploadedImages st @ [imageData],
                readers := take k (readers st) @ drop (Suc k) (readers st)\<rparr>)
      else st)"

text \<open>\<open>this.uploadedImages = this.uploadedImages.filter(img => img.id != imageId)\<close>\<close>

definition AIStyleMatcher_removeImage :: "real \<Rightarrow> matcher_state \<Rightarrow> matcher_state" where
  "AIStyleMatcher_removeImage imageId st =
     st\<lparr>uploadedImages := filter (\<lambda>img. ie_id img \<noteq> imageId) (uploadedImages st)\<rparr>"

text \<open>The readers load one after the other, first started first; each gets its id.\<close>

fun onload_each :: "real list \<Rightarrow> matcher_state \<Rightarrow> matcher_state" where
  "onload_each [] st = st"
| "onload_each (new_id # ids) st = onload_each ids (AIStyleMatcher_onload 0 ''data:'' new_id st)"

section \<open>Concrete inputs\<close>

text \<open>
  A request of three images for a formal occasion. The first image has a third colour,
  cyan, behind two reds; the others are red only.
\<close>

definition overlap_request :: generate_request where
  "overlap_request =
     \<lparr>req_images = Some [\<lparr>img_id = ''a'', colors = [''#ff0000'', ''#ff0000'', ''#00ffff'']\<rparr>,
                         \<lparr>img_id = ''b'', colors = [''#ff0000'']\<rparr>,
                         \<lparr>img_id = ''c'', colors = [''#ff0000'']\<rparr>],
      req_occasion = Some ''formal'', req_clothingType = None, req_colorPreference = None\<rparr>"

text \<open>A request of two images, red and cyan, and red.\<close>

definition pair_request :: generate_request where
  "pair_request =
     \<lparr>req_images = Some [\<lparr>img_id = ''a'', colors = [''#ff0000'', ''#00ffff'']\<rparr>,
                         \<lparr>img_id = ''b'', colors = [''#ff0000'']\<rparr>],
      req_occasion = Some ''formal'', req_clothingType = None, req_colorPreference = None\<rparr>"

text \<open>The three combinations the backend builds for \<open>overlap_request\<close>.\<close>

definition overlap_window :: combination where
  "overlap_window =
     \<lparr>c_id = 1,
      c_images = [\<lparr>img_id = ''a'', colors = [''#ff0000'', ''#ff0000'', ''#00ffff'']\<rparr>,
                  \<lparr>img_id = ''b'', colors = [''#ff0000'']\<rparr>,
                  \<lparr>img_id = ''c'', colors = [''#ff0000'']\<rparr>],
      c_score = 85, c_rating = 5, c_harmony = ''analogous''\<rparr>"

definition overlap_tail :: combination where
  "overlap_tail =
     \<lparr>c_id = 2,
      c_images = [\<lparr>img_id = ''b'', colors = [''#ff0000'']\<rparr>,
                  \<lparr>img_id = ''c'', colors = [''#ff0000'']\<rparr>],
      c_score = 72, c_rating = 4, c_harmony = ''analogous''\<rparr>"

definition overlap_wrapped :: combination where
  "overlap_wrapped =
     \<lparr>c_id = 3,
      c_images = [\<lparr>img_id = ''c'', colors = [''#ff0000'']\<rparr>,
                  \<lparr>img_id = ''a'', colors = [''#ff0000'', ''#ff0000'', ''#00ffff'']\<rparr>],
      c_score = 85, c_rating = 5, c_harmony = ''analogous''\<rparr>"

text \<open>The two combinations the backend builds for \<open>pair_request\<close>.\<close>

definition pair_first :: combination where
  "pair_first =
     \<lparr>c_id = 1,
      c_images = [\<lparr>img_id = ''a'', colors = [''#ff0000'', ''#00ffff'']\<rparr>,
                  \<lparr>img_id = ''b'', colors = [''#ff0000'']\<rparr>],
      c_score = 85, c_rating = 5, c_harmony = ''complementary''\<rparr>"

definition pair_second :: combination where
  "pair_second =
     \<lparr>c_id = 2,
      c_images = [\<lparr>img_id = ''b'', colors = [''#ff0000'']\<rparr>,
                  \<lparr>img_id = ''a'', colors = [''#ff0000'', ''#00ffff'']\<rparr>],
      c_score = 85, c_rating = 5, c_harmony = ''complementary''\<rparr>"

text \<open>A file system where no path is a readable image, and one whose image has no pixel.\<close>

definition unreadable_imread :: "string \<Rightarrow> cv_image option" where
  "unreadable_imread image_path = None"

definition empty_imread :: "string \<Rightarrow> cv_image option" where
  "empty_imread image_path = Some [[]]"

definition failing_KMeans :: "nat \<Rightarrow> pixel list \<Rightarrow> py_error + kmeans_fit" where
  "failing_KMeans k pixels = Inl ClusterError"

text \<open>An image of one row: a red pixel, then three blue ones (in BGR order).\<close>

definition striped_imread :: "string \<Rightarrow> cv_image option" where
  "striped_imread image_path = Some [[(0, 0, 255), (255, 0, 0), (255, 0, 0), (255, 0, 0)]]"

text \<open>
  Four images of one row of four pixels each: image \<open>j\<close> is blue except for a red pixel at
  position \<open>j\<close> (pixels in BGR order).
\<close>

definition one_red_image :: "nat \<Rightarrow> cv_image" where
  "one_red_image j = [map (\<lambda>i. if i = j then (0, 0, 255) else (255, 0, 0)) [0, 1, 2, 3]]"

definition one_red_imread :: "nat \<Rightarrow> string \<Rightarrow> cv_image option" where
  "one_red_imread j image_path = Some (one_red_image j)"

text \<open>
  The clustering of a pixel list of two colours into two clusters, given the index \<open>i0\<close> of
  the pixel that the seeding takes as first centre. The k-means++ seeding of scikit-learn
  draws that index from the generator seeded with \<open>random_state=42\<close> before it reads a
  pixel value, so it is the same for all pixel lists of one length. The second centre is
  a pixel of the other colour; each centre is then the mean of its cluster, and the fit
  reports the two centroids in this order. Which index the library draws is not known
  here: \<open>i0\<close> is a parameter. Other inputs are outside this description and raise.
\<close>

definition first_pick_KMeans :: "nat \<Rightarrow> nat \<Rightarrow> pixel list \<Rightarrow> py_error + kmeans_fit" where
  "first_pick_KMeans i0 k pixels =
     (if k = 2 \<and> i0 < length pixels \<and> length (remdups pixels) = 2
      then
        (let c0 = pixels ! i0;
             c1 = hd (filter (\<lambda>p. p \<noteq> c0) pixels);
             centre = (\<lambda>(r, g, b). (real r, real g, real b))
         in Inr \<lparr>cluster_centers = [centre c0, centre c1],
                 labels = map (\<lambda>p. if p = c0 then 0 else 1) pixels\<rparr>)
      else Inl ClusterError)"

text \<open>The fit that \<open>extract_dominant_colors\<close> obtains for a readable image.\<close>

definition clustering_of ::
  "(nat \<Rightarrow> pixel list \<Rightarrow> py_error + kmeans_fit) \<Rightarrow> cv_image \<Rightarrow> nat \<Rightarrow> py_error + kmeans_fit" where
  "clustering_of KMeans_fit img num_colors =
     (case cvtColor_BGR2RGB img of
        Inl e \<Rightarrow> Inl e
      | Inr rgb_image \<Rightarrow> KMeans_fit num_colors (reshape_pixels rgb_image))"

text \<open>Red listed first, with the red pixel at position \<open>j\<close> as the only member of cluster 0.\<close>

definition one_red_fit :: "nat \<Rightarrow> kmeans_fit" where
  "one_red_fit j =
     \<lparr>cluster_centers = [(255, 0, 0), (0, 0, 255)],
      labels = map (\<lambda>i. if i = j then 0 else 1) [0, 1, 2, 3]\<rparr>"

text \<open>Thirteen image files, and the ids their readers get.\<close>

definition thirteen_files :: "js_file list" where
  "thirteen_files = replicate 13 \<lparr>file_name = ''shirt.png'', file_type = ''image/png''\<rparr>"

definition thirteen_ids :: "real list" where
  "thirteen_ids = map real [1..<14]"

section \<open>Rounding to a double\<close>

lemma pow2_powr: "pow2 e = 2 powr (of_int e)"
proof (cases "0 \<le> e")
  case True
  then have "(2::real) powr (of_int e) = 2 powr (real (nat e))" by simp
  also have "\<dots> = 2 ^ nat e" by (rule powr_realpow) simp
  finally show ?thesis using True by (simp add: pow2_def)
next
  case False
  then have "(2::real) powr (of_int e) = 2 powr (- real (nat (- e)))" by simp
  also have "\<dots> = inverse (2 powr (real (nat (- e))))" by (rule powr_minus)
  also have "(2::real) powr (real (nat (- e))) = 2 ^ nat (- e)" by (rule powr_realpow) simp
  finally show ?thesis using False by (simp add: pow2_def inverse_eq_divide)
qed

lemma pow2_pos: "0 < pow2 e"
  by (simp add: pow2_powr)


lemma pow2_mono: "pow2 a \<le> pow2 b \<longleftrightarrow> a \<le> b"
  by (simp add: pow2_powr)










section \<open>The harmony classifier\<close>







lemmas fl_eval = fl_def fl_pos_def binade.simps round_half_even_def pow2_def

lemma hex_red: "hex_to_rgb ''#ff0000'' = Inr (255, 0, 0)"
  by (simp add: hex_to_rgb_def py_slice_def py_int16_def py_isspace_def hex_digit_value_def)

lemma hex_cyan: "hex_to_rgb ''#00ffff'' = Inr (0, 255, 255)"
  by (simp add: hex_to_rgb_def py_slice_def py_int16_def py_isspace_def hex_digit_value_def)



lemma fl_simple:
  "fl 0 = 0" "fl 1 = 1" "fl 3 = 3" "fl (1 / 2) = 1 / 2" "fl 180 = 180" "fl (- 180) = - 180"
  by (simp_all add: fl_eval)

lemma hue_red: "hue_of_rgb (255, 0, 0) = Inr 0"
  by (simp add: hue_of_rgb_def rgb_to_hsv_def py_mod1_def py_int_def Let_def fl_simple)

lemma hue_cyan: "hue_of_rgb (0, 255, 255) = Inr 180"
  by (simp add: hue_of_rgb_def rgb_to_hsv_def py_mod1_def py_int_def Let_def fl_simple)

lemma hue_diff_simple:
  "hue_diff 0 0 = 0" "hue_diff 180 180 = 0" "hue_diff 0 180 = 180" "hue_diff 180 0 = 180"
  by (simp_all add: hue_diff_def fl_simple)

lemmas colour_evals = hex_red hex_cyan hue_red hue_cyan hue_diff_simple fl_simple



text \<open>
  Two colours whose exact hues are 40 and 200 degrees: the second hue is computed as the
  double just below 200, the computed difference is just below 160, and the result is
  \<open>diverse\<close>.
\<close>

lemma hex_amber: "hex_to_rgb ''#ffaa00'' = Inr (255, 170, 0)"
  by (simp add: hex_to_rgb_def py_slice_def py_int16_def py_isspace_def hex_digit_value_def)

lemma hex_azure: "hex_to_rgb ''#00aaff'' = Inr (0, 170, 255)"
  by (simp add: hex_to_rgb_def py_slice_def py_int16_def py_isspace_def hex_digit_value_def)

lemma fl_steps:
  "fl (2 / 3) = 6004799503160661 / 9007199254740992"
  "fl (3002399751580331 / 9007199254740992) = 3002399751580331 / 9007199254740992"
  "fl (6004799503160661 / 9007199254740992) = 6004799503160661 / 9007199254740992"
  "fl (2001599834386887 / 18014398509481984) = 2001599834386887 / 18014398509481984"
  "fl (90071992547409915 / 2251799813685248) = 40"
  "fl (39031196770544299 / 9007199254740992) = 4878899596318037 / 1125899906842624"
  "fl (3752999689475413 / 1125899906842624) = 3752999689475413 / 1125899906842624"
  "fl (3752999689475413 / 6755399441055744) = 5003999585967217 / 9007199254740992"
  "fl (225179981368524765 / 1125899906842624) = 7036874417766399 / 35184372088832"
  "fl (- (5629499534213119 / 35184372088832)) = - (5629499534213119 / 35184372088832)"
  "fl (5629499534213119 / 35184372088832) = 5629499534213119 / 35184372088832"
  by (simp_all add: fl_eval)

lemma hue_amber: "hue_of_rgb (255, 170, 0) = Inr 40"
  by (simp add: hue_of_rgb_def rgb_to_hsv_def py_mod1_def py_int_def Let_def fl_simple fl_steps)

lemma hue_azure: "hue_of_rgb (0, 170, 255) = Inr (7036874417766399 / 35184372088832)"
  by (simp add: hue_of_rgb_def rgb_to_hsv_def py_mod1_def py_int_def Let_def fl_simple fl_steps)

lemma harmony_amber_azure: "analyze_color_harmony [''#ffaa00'', ''#00aaff''] = Inr ''diverse''"
  by (simp add: analyze_color_harmony_def harmony_of_hues_def hex_amber hex_azure hue_amber
      hue_azure hue_diff_def fl_steps)

text \<open>
  Two colours whose computed hues differ by a little less than 160 degrees: the program's
  subtraction rounds the difference to the double 160, and the result is \<open>complementary\<close>.
  This is why the test for a complementary pair is stated for \<open>hue_diff\<close>.
\<close>

lemma hex_mint: "hex_to_rgb ''#00ffab'' = Inr (0, 255, 171)"
  by (simp add: hex_to_rgb_def py_slice_def py_int16_def py_isspace_def hex_digit_value_def)

lemma hex_scarlet: "hex_to_rgb ''#ff0100'' = Inr (255, 1, 0)"
  by (simp add: hex_to_rgb_def py_slice_def py_int16_def py_isspace_def hex_digit_value_def)

lemma fl_edge_steps:
  "fl (57 / 85) = 6040121853179253 / 9007199254740992"
  "fl (2967077401561739 / 9007199254740992) = 2967077401561739 / 9007199254740992"
  "fl (24054520362661237 / 9007199254740992) = 6013630090665309 / 2251799813685248"
  "fl (2004543363555103 / 4503599627370496) = 2004543363555103 / 4503599627370496"
  "fl (90204451359979635 / 562949953421312) = 5637778209998727 / 35184372088832"
  "fl (1 / 255) = 282578800148737 / 72057594037927936"
  "fl (71775015237779199 / 72057594037927936) = 280371153272575 / 281474976710656"
  "fl (280371153272575 / 281474976710656) = 280371153272575 / 281474976710656"
  "fl (1103823438081 / 281474976710656) = 1103823438081 / 281474976710656"
  "fl (367941146027 / 562949953421312) = 367941146027 / 562949953421312"
  "fl (16557351571215 / 70368744177664) = 16557351571215 / 70368744177664"
  "fl (11258999068426239 / 70368744177664) = 160"
  by (simp_all add: fl_eval)

lemma hue_mint: "hue_of_rgb (0, 255, 171) = Inr (5637778209998727 / 35184372088832)"
  by (simp add: hue_of_rgb_def rgb_to_hsv_def py_mod1_def py_int_def Let_def fl_simple
      fl_edge_steps)

lemma hue_scarlet: "hue_of_rgb (255, 1, 0) = Inr (16557351571215 / 70368744177664)"
  by (simp add: hue_of_rgb_def rgb_to_hsv_def py_mod1_def py_int_def Let_def fl_simple
      fl_edge_steps)

lemma hue_diff_mint_scarlet:
  "hue_diff (5637778209998727 / 35184372088832) (16557351571215 / 70368744177664) = 160 \<and>
   \<bar>5637778209998727 / 35184372088832 - 16557351571215 / 70368744177664 :: real\<bar> < 160"
  by (simp add: hue_diff_def fl_edge_steps)

lemma harmony_mint_scarlet:
  "analyze_color_harmony [''#00ffab'', ''#ff0100''] = Inr ''complementary''"
  by (simp add: analyze_color_harmony_def harmony_of_hues_def hex_mint hex_scarlet hue_mint
      hue_scarlet hue_diff_mint_scarlet)

section \<open>The outfit score\<close>

lemma fl_multipliers:
  "fl (4 / 5) = 3602879701896397 / 4503599627370496"
  "fl (17 / 20) = 7656119366529843 / 9007199254740992"
  "fl (9 / 10) = 8106479329266893 / 9007199254740992"
  "fl (19 / 20) = 4278419646001971 / 4503599627370496"
  by (simp_all add: fl_eval)

lemma fl_products:
  "fl (342273571680157715 / 4503599627370496) = 76"
  "fl (727331339820335085 / 9007199254740992) = 323 / 4"
  "fl (770115536280354835 / 9007199254740992) = 171 / 2"
  "fl (406449866370187245 / 4503599627370496) = 361 / 4"
  "fl (162129586585337865 / 2251799813685248) = 72"
  "fl (344525371493842935 / 4503599627370496) = 153 / 2"
  "fl (364791569817010185 / 4503599627370496) = 81"
  "fl (192528884070088695 / 2251799813685248) = 171 / 2"
  "fl (306244774661193745 / 4503599627370496) = 68"
  "fl (650770146155036655 / 9007199254740992) = 289 / 4"
  "fl (689050742987685905 / 9007199254740992) = 153 / 2"
  "fl (363665669910167535 / 4503599627370496) = 323 / 4"
  "fl (18014398509481985 / 281474976710656) = 64"
  "fl (38280596832649215 / 562949953421312) = 68"
  "fl (40532396646334465 / 562949953421312) = 72"
  "fl (21392098230009855 / 281474976710656) = 76"
  "fl (270215977642229775 / 4503599627370496) = 60"
  "fl (574208952489738225 / 9007199254740992) = 255 / 4"
  "fl (607985949695016975 / 9007199254740992) = 135 / 2"
  "fl (320881473450147825 / 4503599627370496) = 285 / 4"
  "fl (126100789566373895 / 2251799813685248) = 56"
  "fl (267964177828544505 / 4503599627370496) = 119 / 2"
  "fl (283726776524341255 / 4503599627370496) = 63"
  "fl (149744687610068985 / 2251799813685248) = 133 / 2"
  by (simp_all add: fl_eval)

lemma fl_quotients:
  "fl 4 = 4"
  "fl (13 / 4) = 13 / 4"
  "fl (33 / 10) = 3715469692580659 / 1125899906842624"
  "fl (67 / 20) = 7543529375845581 / 2251799813685248"
  "fl (17 / 5) = 7656119366529843 / 2251799813685248"
  "fl (69 / 20) = 3884354678607053 / 1125899906842624"
  "fl (7 / 2) = 7 / 2"
  "fl (71 / 20) = 3996944669291315 / 1125899906842624"
  "fl (18 / 5) = 8106479329266893 / 2251799813685248"
  "fl (73 / 20) = 8219069319951155 / 2251799813685248"
  "fl (37 / 10) = 4165829655317709 / 1125899906842624"
  "fl (15 / 4) = 15 / 4"
  "fl (19 / 5) = 4278419646001971 / 1125899906842624"
  "fl (77 / 20) = 8669429282688205 / 2251799813685248"
  "fl (39 / 10) = 8782019273372467 / 2251799813685248"
  "fl (79 / 20) = 4447304632028365 / 1125899906842624"
  "fl (81 / 20) = 4559894622712627 / 1125899906842624"
  "fl (41 / 10) = 2308094809027379 / 562949953421312"
  "fl (83 / 20) = 2336242306698445 / 562949953421312"
  "fl (21 / 5) = 4728779608739021 / 1125899906842624"
  "fl (17 / 4) = 17 / 4"
  "fl (43 / 10) = 4841369599423283 / 1125899906842624"
  "fl (87 / 20) = 2448832297382707 / 562949953421312"
  "fl (22 / 5) = 2476979795053773 / 562949953421312"
  "fl (89 / 20) = 5010254585449677 / 1125899906842624"
  "fl (9 / 2) = 9 / 2"
  "fl (91 / 20) = 5122844576133939 / 1125899906842624"
  "fl (23 / 5) = 2589569785738035 / 562949953421312"
  "fl (93 / 20) = 2617717283409101 / 562949953421312"
  "fl (47 / 10) = 5291729562160333 / 1125899906842624"
  "fl (19 / 4) = 19 / 4"
  by (simp_all add: fl_eval)

text \<open>
  The score in double arithmetic: \<open>color_score * multiplier\<close> with the multiplier rounded
  to a double and the product rounded again has the integer part of the exact product,
  for every harmony label and every occasion.
\<close>

lemma score_product_rounding:
  "py_int (fl (of_int (harmony_scores harmony) * fl (occasion_multipliers harmony occasion)))
     = py_int (of_int (harmony_scores harmony) * occasion_multipliers harmony occasion)"
  by (simp add: harmony_scores_def occasion_multipliers_def fl_multipliers fl_products
      py_int_def)

text \<open>The same for the quotient \<open>score / 20\<close> of the rating, for the scores from 65 to 95.\<close>

lemma rating_quotient_rounding:
  assumes "65 \<le> sc" and "sc \<le> 95"
  shows "py_int (fl (of_int sc / 20)) = py_int (of_int sc / 20)"
proof -
  from assms have "sc = 65 \<or> sc = 66 \<or> sc = 67 \<or> sc = 68 \<or> sc = 69 \<or> sc = 70 \<or>
      sc = 71 \<or> sc = 72 \<or> sc = 73 \<or> sc = 74 \<or> sc = 75 \<or> sc = 76 \<or>
      sc = 77 \<or> sc = 78 \<or> sc = 79 \<or> sc = 80 \<or> sc = 81 \<or> sc = 82 \<or>
      sc = 83 \<or> sc = 84 \<or> sc = 85 \<or> sc = 86 \<or> sc = 87 \<or> sc = 88 \<or>
      sc = 89 \<or> sc = 90 \<or> sc = 91 \<or> sc = 92 \<or> sc = 93 \<or> sc = 94 \<or>
      sc = 95"
    by presburger
  then show ?thesis
    by (elim disjE) (simp_all add: fl_quotients py_int_def)
qed

lemma harmony_occasion_score_bounds:
  "65 \<le> harmony_occasion_score harmony occasion \<and> harmony_occasion_score harmony occasion \<le> 95"
  by (simp add: harmony_occasion_score_def Let_def)

lemma calculate_outfit_score_bounds:
  "calculate_outfit_score images_data occasion color_preference = Inr sc \<Longrightarrow> 65 \<le> sc \<and> sc \<le> 95"
  using harmony_occasion_score_bounds
  by (auto simp: calculate_outfit_score_def Let_def split: if_splits sum.splits)

lemma score_complementary_formal: "harmony_occasion_score ''complementary'' ''formal'' = 85"
  by (simp add: harmony_occasion_score_def harmony_scores_def occasion_multipliers_def py_int_def)

lemma score_analogous_formal: "harmony_occasion_score ''analogous'' ''formal'' = 72"
  by (simp add: harmony_occasion_score_def harmony_scores_def occasion_multipliers_def py_int_def)

lemma harmony_red_cyan_red:
  "analyze_color_harmony [''#ff0000'', ''#00ffff'', ''#ff0000''] = Inr ''complementary''"
  by (simp add: analyze_color_harmony_def harmony_of_hues_def colour_evals)

lemma harmony_red_red_cyan:
  "analyze_color_harmony [''#ff0000'', ''#ff0000'', ''#00ffff''] = Inr ''complementary''"
  by (simp add: analyze_color_harmony_def harmony_of_hues_def colour_evals)

text \<open>
  Claim C2. The base table gives 95, 90, 85, 80 and 75 for the five labels and 70 for any
  other label; for every label and every occasion, in the multiplier table or not, the
  score is an integer between 65 and 95, and so is every score that
  \<open>calculate_outfit_score\<close> returns.
\<close>

theorem outfit_score_in_range:
  "harmony_scores ''complementary'' = 95 \<and> harmony_scores ''analogous'' = 90 \<and>
   harmony_scores ''triadic'' = 85 \<and> harmony_scores ''monochrome'' = 80 \<and>
   harmony_scores ''diverse'' = 75 \<and>
   (harmony \<notin> set [''complementary'', ''analogous'', ''triadic'', ''monochrome'', ''diverse'']
      \<longrightarrow> harmony_scores harmony = 70) \<and>
   65 \<le> harmony_occasion_score harmony occasion \<and>
   harmony_occasion_score harmony occasion \<le> 95 \<and>
   (calculate_outfit_score images_data occasion color_preference = Inr sc
      \<longrightarrow> 65 \<le> sc \<and> sc \<le> 95)"
proof -
  have table: "harmony_scores ''complementary'' = 95 \<and> harmony_scores ''analogous'' = 90 \<and>
    harmony_scores ''triadic'' = 85 \<and> harmony_scores ''monochrome'' = 80 \<and>
    harmony_scores ''diverse'' = 75"
    by (simp add: harmony_scores_def)
  have fallback: "harmony \<notin> set [''complementary'', ''analogous'', ''triadic'', ''monochrome'', ''diverse'']
      \<longrightarrow> harmony_scores harmony = 70"
    by (simp add: harmony_scores_def)
  show ?thesis
    using table fallback harmony_occasion_score_bounds [of harmony occasion]
      calculate_outfit_score_bounds [of images_data occasion color_preference sc]
    by blast
qed

theorem outfit_score_in_range_witness:
  "''plaid'' \<notin> set [''complementary'', ''analogous'', ''triadic'', ''monochrome'', ''diverse''] \<and>
   harmony_scores ''plaid'' = 70 \<and>
   calculate_outfit_score [\<lparr>img_id = ''a'', colors = [''#ff0000'', ''#00ffff'', ''#ff0000'']\<rparr>]
     ''formal'' [] = Inr 85 \<and>
   (65::int) \<le> 85 \<and> (85::int) \<le> 95"
proof -
  have notin: "''plaid'' \<notin> set [''complementary'', ''analogous'', ''triadic'', ''monochrome'', ''diverse'']"
    by simp
  have calc: "calculate_outfit_score
      [\<lparr>img_id = ''a'', colors = [''#ff0000'', ''#00ffff'', ''#ff0000'']\<rparr>] ''formal'' [] = Inr 85"
    by (simp add: calculate_outfit_score_def harmony_red_cyan_red score_complementary_formal)
  from outfit_score_in_range [of "''plaid''" "''formal''"
      "[\<lparr>img_id = ''a'', colors = [''#ff0000'', ''#00ffff'', ''#ff0000'']\<rparr>]" "[]" 85] notin calc
  show ?thesis by blast
qed

text \<open>
  Claim C9. \<open>calculate_outfit_score\<close> does not read its colour preference: two calls that
  differ in that argument only give the same result.
\<close>

theorem calculate_outfit_score_ignores_preference:
  "calculate_outfit_score images_data occasion preference1 =
   calculate_outfit_score images_data occasion preference2"
  by (simp add: calculate_outfit_score_def)

section \<open>Generated combinations\<close>

lemma collect_results_member:
  "collect_results rs = Inr xs \<Longrightarrow> x \<in> set xs \<Longrightarrow> Inr x \<in> set rs"
  by (induction rs arbitrary: xs) (auto split: sum.splits)

lemma generate_success_member:
  assumes "generate_combinations body = (200, GenerateSuccess cs n)" and "c \<in> set cs"
  shows "\<exists>data i. body = Some data \<and>
           make_combination (request_images data) (request_occasion data)
             (request_colorPreference data) i = Inr c"
proof (cases body)
  case None
  with assms show ?thesis by (simp add: generate_combinations_def)
next
  case (Some data)
  let ?rs = "map (make_combination (request_images data) (request_occasion data)
                    (request_colorPreference data))
                 [0..<min 4 (length (request_images data))]"
  from assms(1) Some obtain xs where xs: "collect_results ?rs = Inr xs" "cs = sort_by_score xs"
    by (auto simp: generate_combinations_def Let_def split: if_splits sum.splits)
  from xs(2) assms(2) have "c \<in> set xs" by (simp add: sort_by_score_def)
  with xs(1) have "Inr c \<in> set ?rs" by (rule collect_results_member)
  then obtain i where "make_combination (request_images data) (request_occasion data)
                         (request_colorPreference data) i = Inr c" by auto
  with Some show ?thesis by blast
qed

lemma make_combination_fields:
  "make_combination images_data occasion color_preference i = Inr c \<Longrightarrow>
     calculate_outfit_score (c_images c) occasion color_preference = Inr (c_score c) \<and>
     c_rating c = rating_of_score (c_score c) \<and>
     analyze_color_harmony (concat (map (\<lambda>img. take 2 (colors img)) (c_images c)))
       = Inr (c_harmony c)"
  by (auto simp: make_combination_def Let_def split: sum.splits)

lemma top_two_is_all:
  "\<forall>img\<in>set imgs. length (colors img) \<le> 2 \<Longrightarrow>
     concat (map (\<lambda>img. take 2 (colors img)) imgs) = concat (map colors imgs)"
  by (induction imgs) auto

lemma rating_floor:
  "rating_of_score sc = min 5 (max 1 (\<lfloor>of_int sc / 20 :: real\<rfloor> + 1))"
proof (cases "0 \<le> sc")
  case True
  then show ?thesis by (simp add: rating_of_score_def py_int_def)
next
  case False
  then have neg: "(of_int sc / 20 :: real) < 0" by simp
  then have "\<lceil>of_int sc / 20 :: real\<rceil> \<le> 0" by (simp add: ceiling_le_iff)
  moreover have "\<lfloor>of_int sc / 20 :: real\<rfloor> \<le> \<lceil>of_int sc / 20 :: real\<rceil>"
    by (rule floor_le_ceiling)
  ultimately show ?thesis using neg by (simp add: rating_of_score_def py_int_def)
qed

lemma rating_four_or_five:
  assumes "65 \<le> sc" and "sc \<le> 95"
  shows "rating_of_score sc = 4 \<or> rating_of_score sc = 5"
proof -
  have f: "\<lfloor>of_int sc / 20 :: real\<rfloor> = sc div 20"
    by (simp add: floor_divide_of_int_eq [of sc 20, simplified])
  from assms have "sc div 20 = 3 \<or> sc div 20 = 4" by presburger
  then show ?thesis unfolding rating_floor f by auto
qed

lemma harmony_reds_cyan_5:
  "analyze_color_harmony [''#ff0000'', ''#ff0000'', ''#00ffff'', ''#ff0000'', ''#ff0000'']
     = Inr ''complementary''"
  by (simp add: analyze_color_harmony_def harmony_of_hues_def colour_evals)

lemma harmony_reds_cyan_4:
  "analyze_color_harmony [''#ff0000'', ''#ff0000'', ''#ff0000'', ''#00ffff'']
     = Inr ''complementary''"
  by (simp add: analyze_color_harmony_def harmony_of_hues_def colour_evals)

lemma harmony_reds_4:
  "analyze_color_harmony [''#ff0000'', ''#ff0000'', ''#ff0000'', ''#ff0000''] = Inr ''analogous''"
  by (simp add: analyze_color_harmony_def harmony_of_hues_def colour_evals)

lemma harmony_reds_3:
  "analyze_color_harmony [''#ff0000'', ''#ff0000'', ''#ff0000''] = Inr ''analogous''"
  by (simp add: analyze_color_harmony_def harmony_of_hues_def colour_evals)

lemma harmony_reds_2:
  "analyze_color_harmony [''#ff0000'', ''#ff0000''] = Inr ''analogous''"
  by (simp add: analyze_color_harmony_def harmony_of_hues_def colour_evals)

lemma rating_85: "rating_of_score 85 = 5"
  by (simp add: rating_of_score_def py_int_def)

lemma rating_72: "rating_of_score 72 = 4"
  by (simp add: rating_of_score_def py_int_def)

lemmas harmony_evals = harmony_reds_cyan_5 harmony_reds_cyan_4 harmony_reds_4 harmony_reds_3
  harmony_reds_2 harmony_red_cyan_red harmony_red_red_cyan score_complementary_formal
  score_analogous_formal rating_85 rating_72

lemma overlap_combination_0:
  "make_combination (request_images overlap_request) ''formal'' [] 0 =
     Inr \<lparr>c_id = 1,
          c_images = [\<lparr>img_id = ''a'', colors = [''#ff0000'', ''#ff0000'', ''#00ffff'']\<rparr>,
                      \<lparr>img_id = ''b'', colors = [''#ff0000'']\<rparr>,
                      \<lparr>img_id = ''c'', colors = [''#ff0000'']\<rparr>],
          c_score = 85, c_rating = 5, c_harmony = ''analogous''\<rparr>"
  by (simp add: make_combination_def select_images_def py_slice_def request_images_def
      overlap_request_def calculate_outfit_score_def harmony_evals)

lemma overlap_combination_1:
  "make_combination (request_images overlap_request) ''formal'' [] (Suc 0) =
     Inr \<lparr>c_id = 2,
          c_images = [\<lparr>img_id = ''b'', colors = [''#ff0000'']\<rparr>,
                      \<lparr>img_id = ''c'', colors = [''#ff0000'']\<rparr>],
          c_score = 72, c_rating = 4, c_harmony = ''analogous''\<rparr>"
  by (simp add: make_combination_def select_images_def py_slice_def request_images_def
      overlap_request_def calculate_outfit_score_def harmony_evals)

lemma overlap_combination_2:
  "make_combination (request_images overlap_request) ''formal'' [] 2 =
     Inr \<lparr>c_id = 3,
          c_images = [\<lparr>img_id = ''c'', colors = [''#ff0000'']\<rparr>,
                      \<lparr>img_id = ''a'', colors = [''#ff0000'', ''#ff0000'', ''#00ffff'']\<rparr>],
          c_score = 85, c_rating = 5, c_harmony = ''analogous''\<rparr>"
  by (simp add: make_combination_def select_images_def py_slice_def request_images_def
      overlap_request_def calculate_outfit_score_def harmony_evals)

lemma upt_3: "[0..<3] = [0, 1, 2]"
  by (simp add: upt_rec)

lemma upt_2: "[0..<2] = [0, 1]"
  by (simp add: upt_rec)

lemma overlap_request_fields:
  "req_images overlap_request \<noteq> None \<and> length (request_images overlap_request) = 3 \<and>
   request_occasion overlap_request = ''formal'' \<and> request_colorPreference overlap_request = []"
  by (simp add: overlap_request_def request_images_def request_occasion_def
      request_colorPreference_def)

lemma overlap_response:
  "generate_combinations (Some overlap_request) =
     (200, GenerateSuccess [overlap_window, overlap_wrapped, overlap_tail] 3)"
  using overlap_request_fields
  by (simp add: generate_combinations_def upt_3 overlap_combination_0 overlap_combination_1
      overlap_combination_2 sort_by_score_def overlap_window_def overlap_wrapped_def
      overlap_tail_def)

lemma pair_combination_0:
  "make_combination (request_images pair_request) ''formal'' [] 0 =
     Inr \<lparr>c_id = 1,
          c_images = [\<lparr>img_id = ''a'', colors = [''#ff0000'', ''#00ffff'']\<rparr>,
                      \<lparr>img_id = ''b'', colors = [''#ff0000'']\<rparr>],
          c_score = 85, c_rating = 5, c_harmony = ''complementary''\<rparr>"
  by (simp add: make_combination_def select_images_def py_slice_def request_images_def
      pair_request_def calculate_outfit_score_def harmony_evals)

lemma pair_combination_1:
  "make_combination (request_images pair_request) ''formal'' [] (Suc 0) =
     Inr \<lparr>c_id = 2,
          c_images = [\<lparr>img_id = ''b'', colors = [''#ff0000'']\<rparr>,
                      \<lparr>img_id = ''a'', colors = [''#ff0000'', ''#00ffff'']\<rparr>],
          c_score = 85, c_rating = 5, c_harmony = ''complementary''\<rparr>"
  by (simp add: make_combination_def select_images_def py_slice_def request_images_def
      pair_request_def calculate_outfit_score_def harmony_evals)

lemma pair_request_fields:
  "req_images pair_request \<noteq> None \<and> length (request_images pair_request) = 2 \<and>
   request_occasion pair_request = ''formal'' \<and> request_colorPreference pair_request = []"
  by (simp add: pair_request_def request_images_def request_occasion_def
      request_colorPreference_def)

lemma pair_response:
  "generate_combinations (Some pair_request) = (200, GenerateSuccess [pair_first, pair_second] 2)"
  using pair_request_fields
  by (simp add: generate_combinations_def upt_2 pair_combination_0 pair_combination_1
      sort_by_score_def pair_first_def pair_second_def)

text \<open>
  Claim C3, as stated, fails. The three combinations built for \<open>overlap_request\<close> belong to
  one request, so to one occasion, and all carry the harmony field \<open>analogous\<close>; yet the
  first has score 85 and rating 5 and the last has score 72 and rating 4. The score is
  computed from all colours of the selected images, the harmony field from the first two
  colours of each.
\<close>

theorem harmony_field_score_counterexample:
  "generate_combinations (Some overlap_request) =
     (200, GenerateSuccess [overlap_window, overlap_wrapped, overlap_tail] 3) \<and>
   c_harmony overlap_window = c_harmony overlap_tail \<and>
   c_score overlap_window \<noteq> c_score overlap_tail \<and>
   c_rating overlap_window \<noteq> c_rating overlap_tail"
  using overlap_response by (simp add: overlap_window_def overlap_tail_def)

text \<open>
  Claim C3, amended. For every combination of a successful response: the harmony field is
  the label of the first two colours of each of its images; the rating is the rating of
  its score; the score is 70 when its images have no colour, and otherwise the score of
  the occasion and of the harmony label of all colours of its images. So two
  combinations for the same occasion, with some colour each and the same label of all
  their colours, have equal scores and equal ratings.
\<close>

theorem score_determined_by_all_colours:
  "generate_combinations (Some data1) = (200, GenerateSuccess cs1 n1) \<and>
   generate_combinations (Some data2) = (200, GenerateSuccess cs2 n2) \<and>
   c1 \<in> set cs1 \<and> c2 \<in> set cs2
   \<longrightarrow>
   analyze_color_harmony (concat (map (\<lambda>img. take 2 (colors img)) (c_images c1)))
     = Inr (c_harmony c1) \<and>
   c_rating c1 = rating_of_score (c_score c1) \<and>
   (concat (map colors (c_images c1)) = [] \<longrightarrow> c_score c1 = 70) \<and>
   (concat (map colors (c_images c1)) \<noteq> [] \<longrightarrow>
      (\<exists>label. analyze_color_harmony (concat (map colors (c_images c1))) = Inr label \<and>
               c_score c1 = harmony_occasion_score label (request_occasion data1))) \<and>
   (request_occasion data1 = request_occasion data2 \<and>
    concat (map colors (c_images c1)) \<noteq> [] \<and>
    concat (map colors (c_images c2)) \<noteq> [] \<and>
    analyze_color_harmony (concat (map colors (c_images c1)))
      = analyze_color_harmony (concat (map colors (c_images c2)))
    \<longrightarrow> c_score c1 = c_score c2 \<and> c_rating c1 = c_rating c2)"
proof (intro impI, elim conjE)
  assume g1: "generate_combinations (Some data1) = (200, GenerateSuccess cs1 n1)"
    and g2: "generate_combinations (Some data2) = (200, GenerateSuccess cs2 n2)"
    and m1: "c1 \<in> set cs1" and m2: "c2 \<in> set cs2"
  have fields: "calculate_outfit_score (c_images c) (request_occasion d)
                  (request_colorPreference d) = Inr (c_score c) \<and>
                c_rating c = rating_of_score (c_score c) \<and>
                analyze_color_harmony (concat (map (\<lambda>img. take 2 (colors img)) (c_images c)))
                  = Inr (c_harmony c)"
    if g: "generate_combinations (Some d) = (200, GenerateSuccess cs n)" and m: "c \<in> set cs"
    for d cs n c
  proof -
    from generate_success_member [OF g m] obtain i where
      "make_combination (request_images d) (request_occasion d)
         (request_colorPreference d) i = Inr c" by auto
    then show ?thesis by (rule make_combination_fields)
  qed
  have score_of: "\<exists>label. analyze_color_harmony (concat (map colors (c_images c))) = Inr label \<and>
                    c_score c = harmony_occasion_score label (request_occasion d)"
    if g: "generate_combinations (Some d) = (200, GenerateSuccess cs n)" and m: "c \<in> set cs"
      and ne: "concat (map colors (c_images c)) \<noteq> []"
    for d cs n c
    using fields [OF g m] ne
    by (auto simp: calculate_outfit_score_def Let_def split: if_splits sum.splits)
  have empty: "c_score c1 = 70" if "concat (map colors (c_images c1)) = []"
    using fields [OF g1 m1] that by (simp add: calculate_outfit_score_def)
  have same: "c_score c1 = c_score c2 \<and> c_rating c1 = c_rating c2"
    if occ: "request_occasion data1 = request_occasion data2"
      and ne1: "concat (map colors (c_images c1)) \<noteq> []"
      and ne2: "concat (map colors (c_images c2)) \<noteq> []"
      and lab: "analyze_color_harmony (concat (map colors (c_images c1)))
                 = analyze_color_harmony (concat (map colors (c_images c2)))"
  proof -
    from score_of [OF g1 m1 ne1] score_of [OF g2 m2 ne2] occ lab
    have "c_score c1 = c_score c2" by auto
    with fields [OF g1 m1] fields [OF g2 m2] show ?thesis by simp
  qed
  from fields [OF g1 m1] score_of [OF g1 m1] empty same
  show "analyze_color_harmony (concat (map (\<lambda>img. take 2 (colors img)) (c_images c1)))
     = Inr (c_harmony c1) \<and>
   c_rating c1 = rating_of_score (c_score c1) \<and>
   (concat (map colors (c_images c1)) = [] \<longrightarrow> c_score c1 = 70) \<and>
   (concat (map colors (c_images c1)) \<noteq> [] \<longrightarrow>
      (\<exists>label. analyze_color_harmony (concat (map colors (c_images c1))) = Inr label \<and>
               c_score c1 = harmony_occasion_score label (request_occasion data1))) \<and>
   (request_occasion data1 = request_occasion data2 \<and>
    concat (map colors (c_images c1)) \<noteq> [] \<and>
    concat (map colors (c_images c2)) \<noteq> [] \<and>
    analyze_color_harmony (concat (map colors (c_images c1)))
      = analyze_color_harmony (concat (map colors (c_images c2)))
    \<longrightarrow> c_score c1 = c_score c2 \<and> c_rating c1 = c_rating c2)"
    by blast
qed

lemma overlap_window_colours:
  "concat (map colors (c_images overlap_window))
     = [''#ff0000'', ''#ff0000'', ''#00ffff'', ''#ff0000'', ''#ff0000'']"
  by (simp add: overlap_window_def)

lemma pair_first_colours:
  "concat (map colors (c_images pair_first)) = [''#ff0000'', ''#00ffff'', ''#ff0000'']"
  by (simp add: pair_first_def)

theorem score_determined_by_all_colours_witness:
  "generate_combinations (Some overlap_request) =
     (200, GenerateSuccess [overlap_window, overlap_wrapped, overlap_tail] 3) \<and>
   generate_combinations (Some pair_request) = (200, GenerateSuccess [pair_first, pair_second] 2) \<and>
   overlap_window \<in> set [overlap_window, overlap_wrapped, overlap_tail] \<and>
   pair_first \<in> set [pair_first, pair_second] \<and>
   request_occasion overlap_request = request_occasion pair_request \<and>
   concat (map colors (c_images overlap_window)) \<noteq> [] \<and>
   concat (map colors (c_images pair_first)) \<noteq> [] \<and>
   analyze_color_harmony (concat (map colors (c_images overlap_window))) = Inr ''complementary'' \<and>
   analyze_color_harmony (concat (map colors (c_images pair_first))) = Inr ''complementary'' \<and>
   c_harmony overlap_window = ''analogous'' \<and> c_harmony pair_first = ''complementary'' \<and>
   c_score overlap_window = c_score pair_first \<and> c_rating overlap_window = c_rating pair_first"
proof -
  have mem: "overlap_window \<in> set [overlap_window, overlap_wrapped, overlap_tail] \<and>
             pair_first \<in> set [pair_first, pair_second]" by simp
  have occ: "request_occasion overlap_request = request_occasion pair_request"
    using overlap_request_fields pair_request_fields by simp
  have ne: "concat (map colors (c_images overlap_window)) \<noteq> [] \<and>
            concat (map colors (c_images pair_first)) \<noteq> []"
    by (simp add: overlap_window_colours pair_first_colours)
  have lab: "analyze_color_harmony (concat (map colors (c_images overlap_window)))
               = Inr ''complementary'' \<and>
             analyze_color_harmony (concat (map colors (c_images pair_first)))
               = Inr ''complementary''"
    by (simp add: overlap_window_colours pair_first_colours harmony_reds_cyan_5
        harmony_red_cyan_red)
  have fld: "c_harmony overlap_window = ''analogous'' \<and> c_harmony pair_first = ''complementary''"
    by (simp add: overlap_window_def pair_first_def)
  from lab have lab_eq: "analyze_color_harmony (concat (map colors (c_images overlap_window)))
      = analyze_color_harmony (concat (map colors (c_images pair_first)))" by simp
  from score_determined_by_all_colours [of overlap_request
      "[overlap_window, overlap_wrapped, overlap_tail]" 3 pair_request
      "[pair_first, pair_second]" 2 overlap_window pair_first]
    overlap_response pair_response mem occ ne lab_eq
  have "c_score overlap_window = c_score pair_first \<and>
        c_rating overlap_window = c_rating pair_first"
    by blast
  with overlap_response pair_response mem occ ne lab fld show ?thesis by blast
qed

text \<open>
  Claim C4. The rating is \<open>clamp(floor(score / 20) + 1, 1, 5)\<close> of the score: 65 gives 4,
  80 gives 5, 95 gives 5, and every score from 65 to 95 gives 4 or 5. Every combination of
  a successful response carries the rating of its score, which is 4 or 5.
\<close>

theorem rating_is_clamped_floor:
  "rating_of_score sc = min 5 (max 1 (\<lfloor>of_int sc / 20 :: real\<rfloor> + 1)) \<and>
   rating_of_score 65 = 4 \<and> rating_of_score 80 = 5 \<and> rating_of_score 95 = 5 \<and>
   (65 \<le> sc \<and> sc \<le> 95 \<longrightarrow> rating_of_score sc \<in> {4, 5}) \<and>
   (generate_combinations body = (200, GenerateSuccess cs n) \<and> c \<in> set cs
      \<longrightarrow> c_rating c = rating_of_score (c_score c) \<and> c_rating c \<in> {4, 5})"
proof -
  have points: "rating_of_score 65 = 4 \<and> rating_of_score 80 = 5 \<and> rating_of_score 95 = 5"
    by (simp add: rating_of_score_def py_int_def)
  have band: "65 \<le> sc \<and> sc \<le> 95 \<longrightarrow> rating_of_score sc \<in> {4, 5}"
    using rating_four_or_five [of sc] by auto
  have resp: "c_rating c = rating_of_score (c_score c) \<and> c_rating c \<in> {4, 5}"
    if g: "generate_combinations body = (200, GenerateSuccess cs n)" and m: "c \<in> set cs"
  proof -
    from generate_success_member [OF g m] obtain data i where
      mk: "make_combination (request_images data) (request_occasion data)
             (request_colorPreference data) i = Inr c" by auto
    note f = make_combination_fields [OF mk]
    from f have "65 \<le> c_score c \<and> c_score c \<le> 95"
      using calculate_outfit_score_bounds by blast
    then have "rating_of_score (c_score c) \<in> {4, 5}"
      using rating_four_or_five [of "c_score c"] by auto
    with f show ?thesis by simp
  qed
  from rating_floor [of sc] points band resp show ?thesis by blast
qed

theorem rating_is_clamped_floor_witness:
  "(65::int) \<le> 72 \<and> (72::int) \<le> 95 \<and> rating_of_score 72 \<in> {4, 5} \<and>
   generate_combinations (Some pair_request) = (200, GenerateSuccess [pair_first, pair_second] 2) \<and>
   pair_second \<in> set [pair_first, pair_second] \<and>
   c_rating pair_second = rating_of_score (c_score pair_second) \<and> c_rating pair_second \<in> {4, 5}"
proof -
  have m: "pair_second \<in> set [pair_first, pair_second]" by simp
  have b: "(65::int) \<le> 72 \<and> (72::int) \<le> 95" by simp
  from rating_is_clamped_floor [of 72 "Some pair_request" "[pair_first, pair_second]" 2 pair_second]
    pair_response m b
  show ?thesis by blast
qed

section \<open>The colour extractor\<close>

lemma extract_unreadable:
  "imread image_path = None \<Longrightarrow>
     extract_dominant_colors imread KMeans_fit image_path num_colors = []"
  by (simp add: extract_dominant_colors_def)

lemma extract_no_pixels:
  "imread image_path = Some img \<Longrightarrow> concat img = [] \<Longrightarrow>
     extract_dominant_colors imread KMeans_fit image_path num_colors = [''#000000'', ''#FFFFFF'']"
  by (simp add: extract_dominant_colors_def cvtColor_BGR2RGB_def)

lemma extract_clustering_raises:
  "imread image_path = Some img \<Longrightarrow> cvtColor_BGR2RGB img = Inr rgb_image \<Longrightarrow>
   KMeans_fit num_colors (reshape_pixels rgb_image) = Inl e \<Longrightarrow>
     extract_dominant_colors imread KMeans_fit image_path num_colors = [''#000000'', ''#FFFFFF'']"
  by (simp add: extract_dominant_colors_def)

lemma extract_clustered:
  "imread image_path = Some img \<Longrightarrow> cvtColor_BGR2RGB img = Inr rgb_image \<Longrightarrow>
   KMeans_fit num_colors (reshape_pixels rgb_image) = Inr kmeans \<Longrightarrow>
     extract_dominant_colors imread KMeans_fit image_path num_colors =
       map centroid_hex (cluster_centers kmeans)"
  by (simp add: extract_dominant_colors_def)

text \<open>
  Claim C5, as stated, fails: for a file that \<open>imread\<close> cannot read the extractor returns
  the empty list, not the pair of black and white.
\<close>

theorem unreadable_image_counterexample:
  "extract_dominant_colors unreadable_imread failing_KMeans ''missing.jpg'' 5 = [] \<and>
   extract_dominant_colors unreadable_imread failing_KMeans ''missing.jpg'' 5
     \<noteq> [''#000000'', ''#FFFFFF'']"
  by (simp add: extract_dominant_colors_def unreadable_imread_def)

text \<open>
  Claim C5, amended. The extractor never fails: for an unreadable image it returns the
  empty list; for an image without pixels, and for an image on which the clustering
  raises, it returns the fallback pair \<open>['#000000', '#FFFFFF']\<close>.
\<close>

theorem degenerate_image_fallback:
  "(imread image_path = None \<longrightarrow>
      extract_dominant_colors imread KMeans_fit image_path num_colors = []) \<and>
   (imread image_path = Some img \<and> concat img = [] \<longrightarrow>
      extract_dominant_colors imread KMeans_fit image_path num_colors
        = [''#000000'', ''#FFFFFF'']) \<and>
   (imread image_path = Some img \<and> cvtColor_BGR2RGB img = Inr rgb_image \<and>
    KMeans_fit num_colors (reshape_pixels rgb_image) = Inl e \<longrightarrow>
      extract_dominant_colors imread KMeans_fit image_path num_colors
        = [''#000000'', ''#FFFFFF''])"
  using extract_unreadable [of imread image_path KMeans_fit num_colors]
    extract_no_pixels [of imread image_path img KMeans_fit num_colors]
    extract_clustering_raises [of imread image_path img rgb_image KMeans_fit num_colors e]
  by blast

lemma striped_rgb:
  "cvtColor_BGR2RGB [[(0, 0, 255), (255, 0, 0), (255, 0, 0), (255, 0, 0)]] =
     Inr [[(255, 0, 0), (0, 0, 255), (0, 0, 255), (0, 0, 255)]]"
  by (simp add: cvtColor_BGR2RGB_def)

theorem degenerate_image_fallback_witness:
  "unreadable_imread ''missing.jpg'' = None \<and>
   extract_dominant_colors unreadable_imread failing_KMeans ''missing.jpg'' 5 = [] \<and>
   empty_imread ''blank.png'' = Some [[]] \<and> concat [[]] = ([] :: pixel list) \<and>
   extract_dominant_colors empty_imread failing_KMeans ''blank.png'' 5
     = [''#000000'', ''#FFFFFF''] \<and>
   striped_imread ''shirt.png'' = Some [[(0, 0, 255), (255, 0, 0), (255, 0, 0), (255, 0, 0)]] \<and>
   cvtColor_BGR2RGB [[(0, 0, 255), (255, 0, 0), (255, 0, 0), (255, 0, 0)]] =
     Inr [[(255, 0, 0), (0, 0, 255), (0, 0, 255), (0, 0, 255)]] \<and>
   failing_KMeans 5 (reshape_pixels [[(255, 0, 0), (0, 0, 255), (0, 0, 255), (0, 0, 255)]])
     = Inl ClusterError \<and>
   extract_dominant_colors striped_imread failing_KMeans ''shirt.png'' 5
     = [''#000000'', ''#FFFFFF'']"
proof -
  have a: "unreadable_imread ''missing.jpg'' = None"
    by (simp add: unreadable_imread_def)
  have b: "empty_imread ''blank.png'' = Some [[]] \<and> concat [[]] = ([] :: pixel list)"
    by (simp add: empty_imread_def)
  have c: "striped_imread ''shirt.png'' = Some [[(0, 0, 255), (255, 0, 0), (255, 0, 0), (255, 0, 0)]]"
    by (simp add: striped_imread_def)
  have d: "failing_KMeans 5 (reshape_pixels [[(255, 0, 0), (0, 0, 255), (0, 0, 255), (0, 0, 255)]])
     = Inl ClusterError"
    by (simp add: failing_KMeans_def)
  from degenerate_image_fallback [where imread = unreadable_imread and image_path = "''missing.jpg''"
      and KMeans_fit = failing_KMeans and num_colors = 5] a
  have r1: "extract_dominant_colors unreadable_imread failing_KMeans ''missing.jpg'' 5 = []"
    by blast
  from degenerate_image_fallback [where imread = empty_imread and image_path = "''blank.png''"
      and img = "[[]]" and KMeans_fit = failing_KMeans and num_colors = 5] b
  have r2: "extract_dominant_colors empty_imread failing_KMeans ''blank.png'' 5
     = [''#000000'', ''#FFFFFF'']"
    by blast
  from degenerate_image_fallback [where imread = striped_imread and image_path = "''shirt.png''"
      and img = "[[(0, 0, 255), (255, 0, 0), (255, 0, 0), (255, 0, 0)]]"
      and KMeans_fit = failing_KMeans and num_colors = 5
      and rgb_image = "[[(255, 0, 0), (0, 0, 255), (0, 0, 255), (0, 0, 255)]]"
      and e = ClusterError] c striped_rgb d
  have r3: "extract_dominant_colors striped_imread failing_KMeans ''shirt.png'' 5
     = [''#000000'', ''#FFFFFF'']"
    by blast
  from a b c d striped_rgb r1 r2 r3 show ?thesis by blast
qed

lemma hex_digits_255: "hex_digits 255 = ''ff''"
proof -
  have "hex_digits 255 = hex_digits (255 div 16) @ [hex_char (255 mod 16)]"
    by (subst hex_digits.simps) simp
  also have "\<dots> = ''ff''" by (simp add: hex_char_def)
  finally show ?thesis .
qed

lemma format_0: "format_02x 0 = ''00''"
  by (simp add: format_02x_def hex_char_def)

lemma format_255: "format_02x 255 = ''ff''"
  by (simp add: format_02x_def hex_digits_255 del: hex_digits.simps)

lemma centroid_hex_red: "centroid_hex (255, 0, 0) = ''#ff0000''"
  by (simp add: centroid_hex_def py_int_def format_0 format_255)

lemma centroid_hex_blue: "centroid_hex (0, 0, 255) = ''#0000ff''"
  by (simp add: centroid_hex_def py_int_def format_0 format_255)

lemma one_red_clustering:
  "clustering_of (first_pick_KMeans 0) (one_red_image 0) 2 = Inr (one_red_fit 0)"
  "clustering_of (first_pick_KMeans 1) (one_red_image 1) 2 = Inr (one_red_fit 1)"
  "clustering_of (first_pick_KMeans 2) (one_red_image 2) 2 = Inr (one_red_fit 2)"
  "clustering_of (first_pick_KMeans 3) (one_red_image 3) 2 = Inr (one_red_fit 3)"
  by (simp_all add: clustering_of_def cvtColor_BGR2RGB_def reshape_pixels_def one_red_image_def
      first_pick_KMeans_def one_red_fit_def)

lemma extract_clustering_of:
  "clustering_of KMeans_fit img num_colors = Inr kmeans \<Longrightarrow>
     extract_dominant_colors (\<lambda>image_path. Some img) KMeans_fit image_path num_colors =
       map centroid_hex (cluster_centers kmeans)"
  by (auto simp: clustering_of_def extract_dominant_colors_def split: sum.splits)

lemma one_red_extract:
  "extract_dominant_colors (one_red_imread 0) (first_pick_KMeans 0) ''shirt.png'' 2
     = [''#ff0000'', ''#0000ff'']"
  "extract_dominant_colors (one_red_imread 1) (first_pick_KMeans 1) ''shirt.png'' 2
     = [''#ff0000'', ''#0000ff'']"
  "extract_dominant_colors (one_red_imread 2) (first_pick_KMeans 2) ''shirt.png'' 2
     = [''#ff0000'', ''#0000ff'']"
  "extract_dominant_colors (one_red_imread 3) (first_pick_KMeans 3) ''shirt.png'' 2
     = [''#ff0000'', ''#0000ff'']"
  using one_red_clustering [THEN extract_clustering_of, of "''shirt.png''"]
  by (simp_all add: one_red_imread_def [abs_def] one_red_fit_def centroid_hex_red
      centroid_hex_blue)

lemma one_red_sizes:
  "cluster_size (one_red_fit 0) 0 = 1 \<and> cluster_size (one_red_fit 0) 1 = 3"
  "cluster_size (one_red_fit 1) 0 = 1 \<and> cluster_size (one_red_fit 1) 1 = 3"
  "cluster_size (one_red_fit 2) 0 = 1 \<and> cluster_size (one_red_fit 2) 1 = 3"
  "cluster_size (one_red_fit 3) 0 = 1 \<and> cluster_size (one_red_fit 3) 1 = 3"
  by (simp_all add: cluster_size_def one_red_fit_def)

lemma one_red_unordered:
  "\<not> ordered_by_cluster_size (one_red_fit 0)" "\<not> ordered_by_cluster_size (one_red_fit 1)"
  "\<not> ordered_by_cluster_size (one_red_fit 2)" "\<not> ordered_by_cluster_size (one_red_fit 3)"
  by (simp_all add: ordered_by_cluster_size_def cluster_size_def one_red_fit_def upt_rec)

text \<open>
  Claim C6 at four images, \<open>k = 2\<close>: image \<open>j\<close> has one red pixel, at position \<open>j\<close>, and
  three blue ones. Whichever of the four pixels the seeding takes as first centre, for the
  image whose red pixel is that one the clustering lists the red centroid first, and the
  extractor returns \<open>['#ff0000', '#0000ff']\<close>: the colour of the cluster of one pixel before
  the colour of the cluster of three. The extractor never sorts by cluster size.
\<close>

theorem smaller_cluster_listed_first:
  "clustering_of (first_pick_KMeans 0) (one_red_image 0) 2 = Inr (one_red_fit 0) \<and>
   clustering_of (first_pick_KMeans 1) (one_red_image 1) 2 = Inr (one_red_fit 1) \<and>
   clustering_of (first_pick_KMeans 2) (one_red_image 2) 2 = Inr (one_red_fit 2) \<and>
   clustering_of (first_pick_KMeans 3) (one_red_image 3) 2 = Inr (one_red_fit 3) \<and>
   extract_dominant_colors (one_red_imread 0) (first_pick_KMeans 0) ''shirt.png'' 2
     = [''#ff0000'', ''#0000ff''] \<and>
   extract_dominant_colors (one_red_imread 1) (first_pick_KMeans 1) ''shirt.png'' 2
     = [''#ff0000'', ''#0000ff''] \<and>
   extract_dominant_colors (one_red_imread 2) (first_pick_KMeans 2) ''shirt.png'' 2
     = [''#ff0000'', ''#0000ff''] \<and>
   extract_dominant_colors (one_red_imread 3) (first_pick_KMeans 3) ''shirt.png'' 2
     = [''#ff0000'', ''#0000ff''] \<and>
   cluster_size (one_red_fit 0) 0 = 1 \<and> cluster_size (one_red_fit 0) 1 = 3 \<and>
   cluster_size (one_red_fit 1) 0 = 1 \<and> cluster_size (one_red_fit 1) 1 = 3 \<and>
   cluster_size (one_red_fit 2) 0 = 1 \<and> cluster_size (one_red_fit 2) 1 = 3 \<and>
   cluster_size (one_red_fit 3) 0 = 1 \<and> cluster_size (one_red_fit 3) 1 = 3 \<and>
   \<not> ordered_by_cluster_size (one_red_fit 0) \<and> \<not> ordered_by_cluster_size (one_red_fit 1) \<and>
   \<not> ordered_by_cluster_size (one_red_fit 2) \<and> \<not> ordered_by_cluster_size (one_red_fit 3)"
  using one_red_clustering one_red_extract one_red_sizes one_red_unordered by simp

section \<open>The upload endpoint\<close>

lemma upload_rejects_missing_files:
  "files_field = None \<or> files_field = Some [] \<or>
   (\<exists>files. files_field = Some files \<and> list_all (\<lambda>file. filename file = []) files)
   \<Longrightarrow> fst (upload_images process_file files_field) = 400"
  by (auto simp: upload_images_def)

lemma txt_not_allowed: "\<not> allowed_file ''notes.txt''"
  by (simp add: allowed_file_def after_last_dot_def lower_char_def ALLOWED_EXTENSIONS_def)

text \<open>
  Claim C7 at the request whose only file is \<open>notes.txt\<close>: the name is not empty and its
  extension is not allowed, so the request has no valid image; the handler answers 200
  with an empty list of images, not 400.
\<close>

theorem upload_without_allowed_extension:
  "upload_images process_file (Some [\<lparr>filename = ''notes.txt''\<rparr>]) = (200, UploadSuccess [])"
  by (simp add: upload_images_def txt_not_allowed)

section \<open>The front end\<close>

text \<open>
  Claim C8. In \<open>script.js\<close>, uploading an image file whose entry gets an id that no entry
  of the list has, and then removing the entry with that id, gives back the state before
  the upload; from the empty list the round trip ends with the empty list.
\<close>

theorem upload_then_remove:
  "(is_image_file file \<and> (\<forall>f\<in>set (uploadedFiles st). fd_id f \<noteq> new_id) \<longrightarrow>
      removeImage new_id
        (reader_onload (length (loading st)) url new_id (processFiles [file] st)) = st) \<and>
   (is_image_file file \<longrightarrow>
      uploadedFiles
        (reader_onload 0 url new_id (processFiles [file] \<lparr>uploadedFiles = [], loading = []\<rparr>))
        = [\<lparr>fd_file = file, fd_url = url, fd_name = file_name file, fd_id = new_id\<rparr>] \<and>
      removeImage new_id
        (reader_onload 0 url new_id (processFiles [file] \<lparr>uploadedFiles = [], loading = []\<rparr>))
        = \<lparr>uploadedFiles = [], loading = []\<rparr>)"
proof (intro conjI impI)
  assume a: "is_image_file file \<and> (\<forall>f\<in>set (uploadedFiles st). fd_id f \<noteq> new_id)"
  then have keep: "filter (\<lambda>f. fd_id f \<noteq> new_id) (uploadedFiles st) = uploadedFiles st"
    by (simp add: filter_id_conv)
  from a have "reader_onload (length (loading st)) url new_id (processFiles [file] st) =
      st\<lparr>uploadedFiles := uploadedFiles st @
            [\<lparr>fd_file = file, fd_url = url, fd_name = file_name file, fd_id = new_id\<rparr>]\<rparr>"
    by (simp add: reader_onload_def processFiles_def Let_def)
  then show "removeImage new_id
        (reader_onload (length (loading st)) url new_id (processFiles [file] st)) = st"
    using keep by (simp add: removeImage_def)
next
  assume "is_image_file file"
  then show "uploadedFiles
        (reader_onload 0 url new_id (processFiles [file] \<lparr>uploadedFiles = [], loading = []\<rparr>))
        = [\<lparr>fd_file = file, fd_url = url, fd_name = file_name file, fd_id = new_id\<rparr>]"
    by (simp add: reader_onload_def processFiles_def Let_def)
next
  assume "is_image_file file"
  then show "removeImage new_id
        (reader_onload 0 url new_id (processFiles [file] \<lparr>uploadedFiles = [], loading = []\<rparr>))
        = \<lparr>uploadedFiles = [], loading = []\<rparr>"
    by (simp add: reader_onload_def processFiles_def removeImage_def Let_def)
qed

lemma png_is_image: "is_image_file \<lparr>file_name = ''shirt.png'', file_type = ''image/png''\<rparr>"
  by (simp add: is_image_file_def)

theorem upload_then_remove_witness:
  "is_image_file \<lparr>file_name = ''shirt.png'', file_type = ''image/png''\<rparr> \<and>
   list_all (\<lambda>f. fd_id f \<noteq> 8)
     (uploadedFiles
        \<lparr>uploadedFiles = [\<lparr>fd_file = \<lparr>file_name = ''hat.jpg'', file_type = ''image/jpeg''\<rparr>,
                            fd_url = ''data:hat'', fd_name = ''hat.jpg'', fd_id = 7\<rparr>],
         loading = []\<rparr>) \<and>
   removeImage 8
     (reader_onload 0 ''data:shirt'' 8
        (processFiles [\<lparr>file_name = ''shirt.png'', file_type = ''image/png''\<rparr>]
           \<lparr>uploadedFiles = [\<lparr>fd_file = \<lparr>file_name = ''hat.jpg'', file_type = ''image/jpeg''\<rparr>,
                               fd_url = ''data:hat'', fd_name = ''hat.jpg'', fd_id = 7\<rparr>],
            loading = []\<rparr>)) =
     \<lparr>uploadedFiles = [\<lparr>fd_file = \<lparr>file_name = ''hat.jpg'', file_type = ''image/jpeg''\<rparr>,
                         fd_url = ''data:hat'', fd_name = ''hat.jpg'', fd_id = 7\<rparr>],
      loading = []\<rparr> \<and>
   removeImage 8
     (reader_onload 0 ''data:shirt'' 8
        (processFiles [\<lparr>file_name = ''shirt.png'', file_type = ''image/png''\<rparr>]
           \<lparr>uploadedFiles = [], loading = []\<rparr>)) = \<lparr>uploadedFiles = [], loading = []\<rparr>"
proof -
  let ?st = "\<lparr>uploadedFiles = [\<lparr>fd_file = \<lparr>file_name = ''hat.jpg'', file_type = ''image/jpeg''\<rparr>,
                                 fd_url = ''data:hat'', fd_name = ''hat.jpg'', fd_id = 7\<rparr>],
              loading = []\<rparr>"
  have fresh: "\<forall>f\<in>set (uploadedFiles ?st). fd_id f \<noteq> 8" by simp
  have len: "length (loading ?st) = 0" by simp
  from upload_then_remove [of "\<lparr>file_name = ''shirt.png'', file_type = ''image/png''\<rparr>"
      "?st" 8 "''data:shirt''"] png_is_image fresh
  show ?thesis unfolding len by (simp add: list_all_iff)
qed

lemma start_readers_below_limit:
  "length (uploadedImages st) < 12 \<Longrightarrow>
     start_readers files st = st\<lparr>readers := readers st @ files\<rparr>"
  by (induction files arbitrary: st) simp_all

lemma onload_each_pushes:
  "length ids \<le> length (readers st) \<Longrightarrow>
     length (uploadedImages (onload_each ids st)) = length (uploadedImages st) + length ids"
proof (induction ids arbitrary: st)
  case Nil
  then show ?case by simp
next
  case (Cons new_id ids)
  then have ne: "0 < length (readers st)" by auto
  let ?st' = "AIStyleMatcher_onload 0 ''data:'' new_id st"
  from ne have up: "length (uploadedImages ?st') = Suc (length (uploadedImages st))"
    and rd: "length (readers ?st') = length (readers st) - 1"
    by (simp_all add: AIStyleMatcher_onload_def Let_def)
  from Cons.prems rd have "length ids \<le> length (readers ?st')" by simp
  from Cons.IH [OF this] up show ?case by simp
qed

lemma thirteen_files_images: "filter is_image_file thirteen_files = thirteen_files"
  by (simp add: thirteen_files_def png_is_image)

text \<open>
  Claim C10 at a selection of thirteen image files on an empty list: every file passes the
  test \<open>length < 12\<close>, which is made before any reader has loaded, and after the thirteen
  readers have loaded the list has thirteen entries.
\<close>

theorem thirteen_files_exceed_limit:
  "length (uploadedImages
     (onload_each thirteen_ids
        (AIStyleMatcher_processFiles thirteen_files \<lparr>uploadedImages = [], readers = []\<rparr>))) = 13"
proof -
  have started: "AIStyleMatcher_processFiles thirteen_files \<lparr>uploadedImages = [], readers = []\<rparr>
      = \<lparr>uploadedImages = [], readers = thirteen_files\<rparr>"
    by (simp add: AIStyleMatcher_processFiles_def thirteen_files_images start_readers_below_limit)
  have lens: "length thirteen_ids = 13 \<and> length thirteen_files = 13"
    by (simp add: thirteen_ids_def thirteen_files_def)
  then have "length thirteen_ids \<le> length (readers \<lparr>uploadedImages = [], readers = thirteen_files\<rparr>)"
    by simp
  from onload_each_pushes [OF this] lens show ?thesis
    unfolding started by simp
qed

end
